theory Spec2Isabelle
  imports Complex_Main "HOL-Library.Sublist"
begin

section \<open>The resolution tracker component (src/src/ResolutionTracker.jsx)\<close>

subsection \<open>Data\<close>

text \<open>
  A goal record as the component holds it; \<open>notionPageId\<close> is \<open>None\<close> for JavaScript's
  \<open>null\<close>. The field \<open>id\<close> of the source is \<open>rec_id\<close> here and \<open>unit\<close> is
  \<open>unit_name\<close>.

  \<open>target\<close> and \<open>current\<close> are JavaScript numbers, modelled by the real number a finite
  double stands for. JavaScript adds two of them and rounds the sum to the nearest double;
  the model adds them exactly. The two agree when the operands and the sum are safe
  integers (\<open>Number.isSafeInteger\<close>: whole, of magnitude at most \<open>2^53 - 1\<close>), which is
  where the counters of this application live, and every statement below about the exact
  value of a sum is made for that range only.
\<close>

record resolution =
  rec_id :: string
  title :: string
  category :: string
  target :: real
  current :: real
  unit_name :: string
  frequency :: string
  streak :: int
  lastCheckin :: string
  notionPageId :: "string option"

text \<open>The \<open>updates\<close> object sent by a progress mutation: \<open>{ current, lastCheckin }\<close>.\<close>

record fields =
  upd_current :: real
  upd_lastCheckin :: string

record pending_update =
  pageId :: string
  updates :: fields
  timestamp :: nat

text \<open>
  The record open in the detail view. \<open>setSelectedResolution(prev => ({ ...prev, current,
  lastCheckin }))\<close> on a selection that is \<open>null\<close> leaves an object with those two fields
  only, the \<open>Fragment\<close> here; it has no \<open>id\<close>.
\<close>

datatype selection = Whole resolution | Fragment real string

datatype sync_status = Synced | Syncing | Offline | Error | Demo

text \<open>The React state of the component that the synchronisation code reads and sets.\<close>

record component =
  resolutions :: "resolution list"
  isLoading :: bool
  isSyncing :: bool
  syncStatus :: sync_status
  selectedResolution :: "selection option"
  isOnline :: bool
  pendingUpdates :: "pending_update list"

subsection \<open>The remote service\<close>

text \<open>
  What one PATCH through \<open>notionService.updateResolution\<close> can meet: a successful
  response, a response with a non-success status, or a \<open>fetch\<close> that throws. The last
  two both make the service return \<open>null\<close>.

  The world outside the component is the script of outcomes of the calls still to come
  (an exhausted script is an unreachable network) and the log of the updates the remote
  store has applied, oldest first.
\<close>

datatype outcome = Ok | Rejected | Unreachable

record world =
  script :: "outcome list"
  patched :: "(string \<times> fields) list"

fun updateResolution :: "string \<Rightarrow> fields \<Rightarrow> world \<Rightarrow> bool \<times> world" where
  "updateResolution p u w =
     (case script w of
        [] \<Rightarrow> (False, w)
      | Ok # os \<Rightarrow> (True, w\<lparr>script := os, patched := patched w @ [(p, u)]\<rparr>)
      | Rejected # os \<Rightarrow> (False, w\<lparr>script := os\<rparr>)
      | Unreachable # os \<Rightarrow> (False, w\<lparr>script := os\<rparr>))"

subsection \<open>Progress mutations\<close>

text \<open>
  Every function of the component body closes over the constants of one render. A
  function is therefore given the render \<open>r\<close> whose \<open>resolutions\<close>,
  \<open>selectedResolution\<close>, \<open>isOnline\<close> and \<open>pendingUpdates\<close> its body reads, and the
  live state that the setters act on. A handler bound by the latest render has \<open>r\<close>
  equal to the live state; the button handlers that call \<open>updateProgress\<close> are of that
  kind (\<open>useCallback\<close> lists \<open>resolutions\<close>, \<open>selectedResolution\<close> and \<open>isOnline\<close>).

\<close>

text \<open>JavaScript truthiness of \<open>resolution.notionPageId\<close>: neither \<open>null\<close> nor the empty string.\<close>

fun truthy :: "string option \<Rightarrow> bool" where
  "truthy None = False"
| "truthy (Some p) = (p \<noteq> [])"

text \<open>\<open>selectedResolution?.id\<close>, and the object the setter of the selection builds.\<close>

fun selected_id :: "selection option \<Rightarrow> string option" where
  "selected_id None = None"
| "selected_id (Some (Whole p)) = Some (rec_id p)"
| "selected_id (Some (Fragment c d)) = None"

fun spread :: "selection option \<Rightarrow> real \<Rightarrow> string \<Rightarrow> selection" where
  "spread None newCurrent today = Fragment newCurrent today"
| "spread (Some (Whole p)) newCurrent today = Whole (p\<lparr>current := newCurrent, lastCheckin := today\<rparr>)"
| "spread (Some (Fragment c d)) newCurrent today = Fragment newCurrent today"

definition checkin :: "string \<Rightarrow> real \<Rightarrow> string \<Rightarrow> resolution \<Rightarrow> resolution" where
  "checkin i newCurrent today x =
     (if rec_id x = i then x\<lparr>current := newCurrent, lastCheckin := today\<rparr> else x)"

definition updateProgress ::
  "component \<Rightarrow> string \<Rightarrow> nat \<Rightarrow> string \<Rightarrow> real \<Rightarrow> component \<times> world \<Rightarrow> component \<times> world" where
  "updateProgress r today now i increment sw =
     (case sw of (s, w) \<Rightarrow>
      (case find (\<lambda>x. rec_id x = i) (resolutions r) of
         None \<Rightarrow> (s, w)
       | Some res \<Rightarrow>
           let newCurrent = max 0 (current res + increment);
               s1 = s\<lparr>resolutions := map (checkin i newCurrent today) (resolutions s)\<rparr>;
               s2 = (if selected_id (selectedResolution r) = Some i
                     then s1\<lparr>selectedResolution :=
                            Some (spread (selectedResolution s1) newCurrent today)\<rparr>
                     else s1)
           in if truthy (notionPageId res)
              then (if isOnline r
                    then (case updateResolution (the (notionPageId res))
                                 \<lparr>upd_current = newCurrent, upd_lastCheckin = today\<rparr> w of
                            (result, w') \<Rightarrow>
                              (s2\<lparr>syncStatus := (if result then Synced else Error)\<rparr>, w'))
                    else (s2\<lparr>pendingUpdates := pendingUpdates s2 @
                               [\<lparr>pageId = the (notionPageId res),
                                 updates = \<lparr>upd_current = newCurrent, upd_lastCheckin = today\<rparr>,
                                 timestamp = now\<rparr>],
                             syncStatus := Offline\<rparr>, w))
              else (s2, w)))"

text \<open>\<open>Number.MAX_SAFE_INTEGER\<close> and \<open>Number.isSafeInteger\<close>, for the range in which sums are exact.\<close>

definition MAX_SAFE_INTEGER :: real where
  "MAX_SAFE_INTEGER = 2 ^ 53 - 1"

definition isSafeInteger :: "real \<Rightarrow> bool" where
  "isSafeInteger x = (x \<in> \<int> \<and> \<bar>x\<bar> \<le> MAX_SAFE_INTEGER)"

text \<open>
  \<open>getProgress\<close> divides two JavaScript numbers: a zero target gives \<open>NaN\<close> or an
  infinity before \<open>Math.min\<close> caps it.
\<close>

datatype percent = NaN | NegInfinity | Percent real

definition getProgress :: "resolution \<Rightarrow> percent" where
  "getProgress x =
     (if target x = 0
      then (if current x = 0 then NaN else if 0 < current x then Percent 100 else NegInfinity)
      else Percent (min (current x / target x * 100) 100))"

subsection \<open>Local storage and its mirroring effects\<close>

text \<open>
  The two keys of \<open>localStorage\<close> that the component uses. \<open>storage.get\<close> gives
  \<open>null\<close> (\<open>None\<close>) for a missing or unreadable item; \<open>storage.set\<close> swallows the
  exception of a write that the browser refuses, which leaves the item as it was.
\<close>

record local_storage =
  stored_resolutions :: "resolution list option"
  stored_pendingUpdates :: "pending_update list option"
  quotaExceeded :: bool

definition set_resolutions :: "resolution list \<Rightarrow> local_storage \<Rightarrow> local_storage" where
  "set_resolutions rs ls = (if quotaExceeded ls then ls else ls\<lparr>stored_resolutions := Some rs\<rparr>)"

definition set_pendingUpdates :: "pending_update list \<Rightarrow> local_storage \<Rightarrow> local_storage" where
  "set_pendingUpdates q ls = (if quotaExceeded ls then ls else ls\<lparr>stored_pendingUpdates := Some q\<rparr>)"

text \<open>The effect run when \<open>resolutions\<close> changes, and the one run when \<open>pendingUpdates\<close> changes.\<close>

definition saveResolutionsEffect :: "component \<Rightarrow> local_storage \<Rightarrow> local_storage" where
  "saveResolutionsEffect s ls =
     (if length (resolutions s) > 0 then set_resolutions (resolutions s) ls else ls)"

definition savePendingUpdatesEffect :: "component \<Rightarrow> local_storage \<Rightarrow> local_storage" where
  "savePendingUpdatesEffect s ls = set_pendingUpdates (pendingUpdates s) ls"

subsection \<open>Fetching the collection\<close>

definition getDemoData :: "resolution list" where
  "getDemoData =
    [\<lparr>rec_id = ''demo-1'', title = ''Read 24 books'', category = ''Personal Growth'',
      target = 24, current = 3, unit_name = ''books'', frequency = ''yearly'', streak = 12,
      lastCheckin = ''2026-01-05'', notionPageId = None\<rparr>,
     \<lparr>rec_id = ''demo-2'', title = ''Exercise 4x per week'', category = ''Health'',
      target = 4, current = 3, unit_name = ''sessions'', frequency = ''weekly'', streak = 8,
      lastCheckin = ''2026-01-06'', notionPageId = None\<rparr>,
     \<lparr>rec_id = ''demo-3'', title = ''Save $10,000'', category = ''Finance'',
      target = 10000, current = 850, unit_name = ''dollars'', frequency = ''yearly'', streak = 7,
      lastCheckin = ''2026-01-01'', notionPageId = None\<rparr>,
     \<lparr>rec_id = ''demo-4'', title = ''Meditate daily'', category = ''Wellness'',
      target = 7, current = 7, unit_name = ''days'', frequency = ''weekly'', streak = 21,
      lastCheckin = ''2026-01-07'', notionPageId = None\<rparr>,
     \<lparr>rec_id = ''demo-5'', title = ''Learn Spanish'', category = ''Personal Growth'',
      target = 30, current = 12, unit_name = ''lessons'', frequency = ''monthly'', streak = 5,
      lastCheckin = ''2026-01-06'', notionPageId = None\<rparr>]"

text \<open>
  \<open>listed\<close> is what \<open>notionService.fetchResolutions\<close> returns when it is called:
  the array of the List response, or \<open>None\<close> for the \<open>null\<close> of a failed call.
\<close>

definition fetchResolutions ::
  "component \<Rightarrow> resolution list option \<Rightarrow> local_storage \<Rightarrow> component \<Rightarrow> component" where
  "fetchResolutions r listed ls s =
     (let s1 = s\<lparr>isLoading := True\<rparr> in
      if \<not> isOnline r then s1\<lparr>isLoading := False, syncStatus := Offline\<rparr>
      else
        let s2 = s1\<lparr>syncStatus := Syncing\<rparr>;
            s3 = (if listed \<noteq> None \<and> length (the listed) > 0
                  then s2\<lparr>resolutions := the listed, syncStatus := Synced\<rparr>
                  else
                    let cached = stored_resolutions ls in
                    if cached = None \<or> length (the cached) = 0
                    then s2\<lparr>resolutions := getDemoData, syncStatus := Demo\<rparr>
                    else s2\<lparr>syncStatus := Offline\<rparr>)
        in s3\<lparr>isLoading := False\<rparr>)"

subsection \<open>Replaying the queue\<close>

text \<open>The \<open>for\<close> loop of \<open>syncPendingUpdates\<close>, with its accumulator \<open>failed\<close>.\<close>

fun replay :: "pending_update list \<Rightarrow> pending_update list \<Rightarrow> world \<Rightarrow> pending_update list \<times> world" where
  "replay [] failed w = (failed, w)"
| "replay (u # us) failed w =
     (case updateResolution (pageId u) (updates u) w of
        (result, w') \<Rightarrow> replay us (if result then failed else failed @ [u]) w')"

definition syncPendingUpdates ::
  "component \<Rightarrow> resolution list option \<Rightarrow> local_storage \<Rightarrow> component \<times> world \<Rightarrow> component \<times> world" where
  "syncPendingUpdates r listed ls sw =
     (case sw of (s, w) \<Rightarrow>
      if length (pendingUpdates r) = 0 then (s, w)
      else
        let s1 = s\<lparr>isSyncing := True, syncStatus := Syncing\<rparr> in
        (case replay (pendingUpdates r) [] w of
           (failed, w') \<Rightarrow>
             let s2 = s1\<lparr>pendingUpdates := failed, isSyncing := False,
                        syncStatus := (if length failed > 0 then Error else Synced)\<rparr>
             in if length failed = 0 then (fetchResolutions r listed ls s2, w') else (s2, w')))"

subsection \<open>Mounting and the connectivity listeners\<close>

text \<open>The first render: the initial values of the state, \<open>online\<close> being \<open>navigator.onLine\<close>.\<close>

definition mount :: "bool \<Rightarrow> local_storage \<Rightarrow> component" where
  "mount online ls =
     \<lparr>resolutions = (case stored_resolutions ls of None \<Rightarrow> [] | Some rs \<Rightarrow> rs),
      isLoading = True, isSyncing = False, syncStatus = Offline,
      selectedResolution = None, isOnline = online,
      pendingUpdates = (case stored_pendingUpdates ls of None \<Rightarrow> [] | Some q \<Rightarrow> q)\<rparr>"

text \<open>The effect that fetches on mount runs \<open>fetchResolutions\<close> of the first render.\<close>

definition startup :: "bool \<Rightarrow> resolution list option \<Rightarrow> local_storage \<Rightarrow> component" where
  "startup online listed ls = fetchResolutions (mount online ls) listed ls (mount online ls)"

text \<open>
  The listeners for the browser's \<open>online\<close> and \<open>offline\<close> events are installed by an
  effect whose dependency list is empty: it runs once, after the first render, and the
  \<open>syncPendingUpdates\<close> that \<open>handleOnline\<close> calls is the one of the render \<open>r\<close> that
  installed it.
\<close>

definition handleOnline ::
  "component \<Rightarrow> resolution list option \<Rightarrow> local_storage \<Rightarrow> component \<times> world \<Rightarrow> component \<times> world" where
  "handleOnline r listed ls sw =
     (case sw of (s, w) \<Rightarrow> syncPendingUpdates r listed ls (s\<lparr>isOnline := True\<rparr>, w))"

definition handleOffline :: "component \<Rightarrow> component" where
  "handleOffline s = s\<lparr>isOnline := False, syncStatus := Offline\<rparr>"

text \<open>
  A run of progress mutations from the interface, each \<open>(today, now, id, increment)\<close>:
  the button handlers are rebound at every render, so each call reads the state it acts on.
\<close>

fun mutations :: "(string \<times> nat \<times> string \<times> real) list \<Rightarrow> component \<times> world \<Rightarrow> component \<times> world" where
  "mutations [] sw = sw"
| "mutations ((today, now, i, increment) # rest) sw =
     mutations rest (updateProgress (fst sw) today now i increment sw)"

section \<open>The service worker (src/public/service-worker.js)\<close>

subsection \<open>Requests, responses and cache storage\<close>

definition STATIC_CACHE :: string where
  "STATIC_CACHE = ''static-v1''"

definition DYNAMIC_CACHE :: string where
  "DYNAMIC_CACHE = ''dynamic-v1''"

definition STATIC_ASSETS :: "string list" where
  "STATIC_ASSETS =
     [''/'', ''/index.html'', ''/manifest.json'', ''/styles.css'', ''/app.js'',
      ''/icons/icon-192.png'', ''/icons/icon-512.png'',
      ''https://fonts.googleapis.com/css2?family=Inter:wght@400;500;600;700;800&display=swap'']"

definition API_ENDPOINTS :: "string list" where
  "API_ENDPOINTS = [''/api/resolutions'', ''/api/user'']"

text \<open>
  A request as the worker looks at it: its method, its URL (the identity under which the
  caches store it; URLs of the worker's own origin are written as paths), the
  \<open>pathname\<close> of that URL and the \<open>accept\<close> header if there is one.
\<close>

record request =
  req_method :: string
  url :: string
  pathname :: string
  accept :: "string option"

record response =
  status :: nat
  body :: string
  contentType :: "string option"

definition ok :: "response \<Rightarrow> bool" where
  "ok resp = (200 \<le> status resp \<and> status resp \<le> 299)"

text \<open>
  Cache storage: the named caches in the order of their creation, each a list of entries
  keyed by URL. \<open>net\<close> below is the network: the response \<open>fetch\<close> resolves to, or
  \<open>None\<close> when it throws.
\<close>

type_synonym cache = "(string \<times> response) list"
type_synonym cache_storage = "(string \<times> cache) list"

definition caches_keys :: "cache_storage \<Rightarrow> string list" where
  "caches_keys cs = map fst cs"

definition caches_delete :: "string \<Rightarrow> cache_storage \<Rightarrow> cache_storage" where
  "caches_delete name cs = filter (\<lambda>entry. fst entry \<noteq> name) cs"

definition caches_open :: "string \<Rightarrow> cache_storage \<Rightarrow> cache_storage" where
  "caches_open name cs = (if name \<in> set (caches_keys cs) then cs else cs @ [(name, [])])"

text \<open>\<open>cache.put\<close> removes the entry the request had and adds the new one at the end.\<close>

definition put :: "string \<Rightarrow> response \<Rightarrow> cache \<Rightarrow> cache" where
  "put u resp c = filter (\<lambda>entry. fst entry \<noteq> u) c @ [(u, resp)]"

definition cache_put :: "string \<Rightarrow> string \<Rightarrow> response \<Rightarrow> cache_storage \<Rightarrow> cache_storage" where
  "cache_put name u resp cs =
     map (\<lambda>entry. if fst entry = name then (name, put u resp (snd entry)) else entry)
       (caches_open name cs)"

fun caches_match :: "cache_storage \<Rightarrow> string \<Rightarrow> response option" where
  "caches_match [] u = None"
| "caches_match ((name, c) # cs) u =
     (case map_of c u of Some resp \<Rightarrow> Some resp | None \<Rightarrow> caches_match cs u)"

subsection \<open>Install and activate\<close>

datatype sw_error = InstallFailed | SyncFailed

text \<open>\<open>cache.addAll\<close> rejects, and stores nothing, unless every asset is fetched with an ok status.\<close>

definition install :: "(string \<Rightarrow> response option) \<Rightarrow> cache_storage \<Rightarrow> sw_error + cache_storage" where
  "install net cs =
     (if list_all (\<lambda>a. case net a of None \<Rightarrow> False | Some resp \<Rightarrow> ok resp) STATIC_ASSETS
      then Inr (fold (\<lambda>a. cache_put STATIC_CACHE a (the (net a))) STATIC_ASSETS
                  (caches_open STATIC_CACHE cs))
      else Inl InstallFailed)"

definition activate :: "cache_storage \<Rightarrow> cache_storage" where
  "activate cs =
     fold caches_delete
       (filter (\<lambda>name. name \<noteq> STATIC_CACHE \<and> name \<noteq> DYNAMIC_CACHE) (caches_keys cs)) cs"

subsection \<open>The caching strategies\<close>

text \<open>\<open>request.headers.get('accept')?.includes('text/html')\<close>\<close>

fun str_includes :: "string \<Rightarrow> string \<Rightarrow> bool" where
  "str_includes [] needle = (needle = [])"
| "str_includes (c # cs) needle = (prefix needle (c # cs) \<or> str_includes cs needle)"

definition wantsHtml :: "request \<Rightarrow> bool" where
  "wantsHtml req = (case accept req of None \<Rightarrow> False | Some a \<Rightarrow> str_includes a ''text/html'')"

definition offline_json :: response where
  \<open>offline_json =
     \<lparr>status = 503, body = ''{"error":"Offline"}'', contentType = Some ''application/json''\<rparr>\<close>

definition offline_text :: response where
  "offline_text =
     \<lparr>status = 503, body = ''Offline'', contentType = Some ''text/plain;charset=UTF-8''\<rparr>"

text \<open>
  Each strategy gives what the worker responds with (\<open>None\<close> is JavaScript's
  \<open>undefined\<close>, which \<open>caches.match\<close> resolves to when nothing matches) and the cache
  storage once its writes are done.
\<close>

definition cacheFirst ::
  "(string \<Rightarrow> response option) \<Rightarrow> request \<Rightarrow> cache_storage \<Rightarrow> response option \<times> cache_storage" where
  "cacheFirst net req cs =
     (case caches_match cs (url req) of
        Some cached \<Rightarrow> (Some cached, cs)
      | None \<Rightarrow>
          (case net (url req) of
             Some resp \<Rightarrow> (Some resp, if ok resp then cache_put STATIC_CACHE (url req) resp cs else cs)
           | None \<Rightarrow> (Some offline_text, cs)))"

definition networkFirst ::
  "(string \<Rightarrow> response option) \<Rightarrow> request \<Rightarrow> cache_storage \<Rightarrow> response option \<times> cache_storage" where
  "networkFirst net req cs =
     (case net (url req) of
        Some resp \<Rightarrow> (Some resp, if ok resp then cache_put DYNAMIC_CACHE (url req) resp cs else cs)
      | None \<Rightarrow>
          (case caches_match cs (url req) of
             Some cached \<Rightarrow> (Some cached, cs)
           | None \<Rightarrow>
               if wantsHtml req then (caches_match cs ''/offline.html'', cs)
               else (Some offline_json, cs)))"

definition staleWhileRevalidate ::
  "(string \<Rightarrow> response option) \<Rightarrow> request \<Rightarrow> cache_storage \<Rightarrow> response option \<times> cache_storage" where
  "staleWhileRevalidate net req cs =
     (let cached = caches_match cs (url req);
          cs' = (case net (url req) of
                   Some resp \<Rightarrow> if ok resp then cache_put DYNAMIC_CACHE (url req) resp cs else cs
                 | None \<Rightarrow> cs)
      in (if cached \<noteq> None then cached else net (url req), cs'))"

subsection \<open>The fetch listener\<close>

datatype strategy = NetworkFirst | CacheFirst | StaleWhileRevalidate

text \<open>The pattern \<open>/\.(js|css|png|jpg|jpeg|svg|woff2?)$/\<close>.\<close>

definition static_extension :: "string \<Rightarrow> bool" where
  "static_extension p =
     list_ex (\<lambda>e. suffix e p)
       [''.js'', ''.css'', ''.png'', ''.jpg'', ''.jpeg'', ''.svg'', ''.woff'', ''.woff2'']"

text \<open>
  The cascade of the listener, first match first; \<open>None\<close> is the early \<open>return\<close> that
  leaves the request to the browser, no strategy being run.
\<close>

definition route :: "request \<Rightarrow> strategy option" where
  "route req =
     (if req_method req \<noteq> ''GET'' then None
      else if list_ex (\<lambda>endpoint. prefix endpoint (pathname req)) API_ENDPOINTS
      then Some NetworkFirst
      else if pathname req \<in> set STATIC_ASSETS \<or> static_extension (pathname req) then Some CacheFirst
      else if wantsHtml req then Some NetworkFirst
      else Some StaleWhileRevalidate)"

fun run_strategy ::
  "strategy \<Rightarrow> (string \<Rightarrow> response option) \<Rightarrow> request \<Rightarrow> cache_storage \<Rightarrow> response option \<times> cache_storage" where
  "run_strategy NetworkFirst = networkFirst"
| "run_strategy CacheFirst = cacheFirst"
| "run_strategy StaleWhileRevalidate = staleWhileRevalidate"

definition fetch_listener ::
  "(string \<Rightarrow> response option) \<Rightarrow> request \<Rightarrow> cache_storage \<Rightarrow> (response option \<times> cache_storage) option" where
  "fetch_listener net req cs = map_option (\<lambda>st. run_strategy st net req cs) (route req)"

subsection \<open>Background sync\<close>

text \<open>
  The object store \<open>pendingUpdates\<close> of the worker's database, keyed by \<open>id\<close>. The
  \<open>fetch\<close> of \<open>syncResolutions\<close> throws only when the network is unreachable: a response
  with any status resolves, and the loop goes on to delete the update. \<open>db\<close> is
  \<open>None\<close> when the database cannot be opened.
\<close>

fun drain ::
  "(nat \<times> 'a) list \<Rightarrow> outcome list \<Rightarrow> (nat \<times> 'a) list \<Rightarrow> (sw_error + unit) \<times> (nat \<times> 'a) list" where
  "drain [] os db = (Inr (), db)"
| "drain (update # rest) [] db = (Inl SyncFailed, db)"
| "drain (update # rest) (Unreachable # os) db = (Inl SyncFailed, db)"
| "drain (update # rest) (answer # os) db =
     drain rest os (filter (\<lambda>entry. fst entry \<noteq> fst update) db)"

definition syncResolutions ::
  "outcome list \<Rightarrow> (nat \<times> 'a) list option \<Rightarrow> (sw_error + unit) \<times> (nat \<times> 'a) list option" where
  "syncResolutions os db =
     (case db of
        None \<Rightarrow> (Inl SyncFailed, None)
      | Some store \<Rightarrow> (case drain store os store of (res, store') \<Rightarrow> (res, Some store')))"

section \<open>Sample values\<close>

definition example_goal :: resolution where
  "example_goal =
     \<lparr>rec_id = ''a'', title = ''Run'', category = ''Health'', target = 3, current = 3,
      unit_name = ''km'', frequency = ''weekly'', streak = 1, lastCheckin = ''2026-01-07'',
      notionPageId = Some ''p''\<rparr>"

definition idle_goal :: resolution where
  "idle_goal =
     \<lparr>rec_id = ''b'', title = ''Swim'', category = ''Health'', target = 2, current = 0,
      unit_name = ''km'', frequency = ''weekly'', streak = 0, lastCheckin = ''2026-01-07'',
      notionPageId = None\<rparr>"

definition example_state :: "bool \<Rightarrow> component" where
  "example_state online =
     \<lparr>resolutions = [example_goal, idle_goal], isLoading = False, isSyncing = False,
      syncStatus = Synced, selectedResolution = None, isOnline = online, pendingUpdates = []\<rparr>"

definition example_update :: "real \<Rightarrow> nat \<Rightarrow> pending_update" where
  "example_update c t =
     \<lparr>pageId = ''p'', updates = \<lparr>upd_current = c, upd_lastCheckin = ''2026-01-08''\<rparr>,
      timestamp = t\<rparr>"

definition empty_storage :: local_storage where
  "empty_storage = \<lparr>stored_resolutions = None, stored_pendingUpdates = None, quotaExceeded = False\<rparr>"

definition quiet :: world where
  "quiet = \<lparr>script = [Ok], patched = []\<rparr>"

definition old_page :: response where
  "old_page = \<lparr>status = 200, body = ''old'', contentType = None\<rparr>"

definition page :: response where
  "page = \<lparr>status = 200, body = ''page'', contentType = Some ''text/html''\<rparr>"

definition queued :: component where
  "queued = (example_state False)\<lparr>pendingUpdates := [example_update 4 7, example_update 5 8, example_update 4 9]\<rparr>"

definition cleared :: component where
  "cleared = (example_state True)\<lparr>resolutions := []\<rparr>"

definition used_storage :: local_storage where
  "used_storage =
     \<lparr>stored_resolutions = Some [idle_goal], stored_pendingUpdates = Some [example_update 4 7],
      quotaExceeded = False\<rparr>"

definition avatar :: request where
  "avatar = \<lparr>req_method = ''GET'', url = ''/api/user/a.png'', pathname = ''/api/user/a.png'',
     accept = Some ''image/png''\<rparr>"

section \<open>Properties of the component\<close>

subsection \<open>Auxiliary facts\<close>

lemma find_SomeD: "find P xs = Some x \<Longrightarrow> x \<in> set xs \<and> P x"
  by (induction xs) (auto split: if_splits)

lemma updateProgress_resolutions:
  assumes "find (\<lambda>x. rec_id x = i) (resolutions r) = Some res"
  shows "resolutions (fst (updateProgress r today now i inc (s, w))) =
         map (checkin i (max 0 (current res + inc)) today) (resolutions s)"
  using assms
  by (simp add: updateProgress_def Let_def split: prod.splits)

lemma updateResolution_fails:
  "script w = [] \<or> hd (script w) \<noteq> Ok \<Longrightarrow>
   fst (updateResolution p u w) = False \<and> patched (snd (updateResolution p u w)) = patched w"
  by (cases "script w"; simp split: outcome.splits)

text \<open>A replay against a script that covers it: who failed stays, who succeeded is logged.\<close>

lemma replay_script:
  "length us \<le> length (script w) \<Longrightarrow>
   replay us failed w =
     (failed @ map fst (filter (\<lambda>(u, a). a \<noteq> Ok) (zip us (script w))),
      w\<lparr>script := drop (length us) (script w),
        patched := patched w @
          map (\<lambda>(u, a). (pageId u, updates u)) (filter (\<lambda>(u, a). a = Ok) (zip us (script w)))\<rparr>)"
proof (induction us arbitrary: failed w)
  case Nil
  show ?case by simp
next
  case (Cons u us)
  then obtain o' os where sc: "script w = o' # os" by (cases "script w") auto
  with Cons.prems have len: "length us \<le> length os" by simp
  show ?case
  proof (cases o')
    case Ok
    with sc len Cons.IH [of "w\<lparr>script := os, patched := patched w @ [(pageId u, updates u)]\<rparr>" failed]
    show ?thesis by simp
  next
    case Rejected
    with sc len Cons.IH [of "w\<lparr>script := os\<rparr>" "failed @ [u]"]
    show ?thesis by simp
  next
    case Unreachable
    with sc len Cons.IH [of "w\<lparr>script := os\<rparr>" "failed @ [u]"]
    show ?thesis by simp
  qed
qed

lemma failed_nonempty:
  assumes len: "length us \<le> length os"
    and ex: "\<exists>a \<in> set (take (length us) os). a \<noteq> Ok"
  shows "filter (\<lambda>(u, a). a \<noteq> Ok) (zip us os) \<noteq> []"
proof -
  from ex obtain o' where o': "o' \<in> set (take (length us) os)" "o' \<noteq> Ok" by blast
  from len have "map snd (zip us os) = take (length us) os"
    by (simp add: map_snd_zip_take min_absorb1)
  with o' have "o' \<in> snd ` set (zip us os)" by (metis set_map)
  then obtain u where "(u, o') \<in> set (zip us os)" by auto
  with o' show ?thesis by (auto simp: filter_empty_conv)
qed

lemma failed_subseq:
  assumes len: "length us \<le> length os"
  shows "subseq (map fst (filter P (zip us os))) us"
proof -
  have "subseq (map fst (filter P (zip us os))) (map fst (zip us os))"
    by (intro subseq_map subseq_filter_left)
  moreover from len have "map fst (zip us os) = us"
    by (simp add: map_fst_zip_take)
  ultimately show ?thesis by simp
qed

text \<open>Records without a remote id are mutated locally only.\<close>

lemma updateProgress_local_only:
  assumes "\<forall>x \<in> set (resolutions s). notionPageId x = None"
  shows "snd (updateProgress s today now i inc (s, w)) = w
       \<and> pendingUpdates (fst (updateProgress s today now i inc (s, w))) = pendingUpdates s
       \<and> (\<forall>x \<in> set (resolutions (fst (updateProgress s today now i inc (s, w)))). notionPageId x = None)"
proof (cases "find (\<lambda>x. rec_id x = i) (resolutions s)")
  case None
  with assms show ?thesis by (simp add: updateProgress_def)
next
  case (Some res)
  from find_SomeD [OF Some] assms have "notionPageId res = None" by blast
  with Some assms show ?thesis
    by (auto simp: updateProgress_def Let_def checkin_def)
qed

lemma mutations_local_only:
  "\<forall>x \<in> set (resolutions s). notionPageId x = None \<Longrightarrow>
   snd (mutations acts (s, w)) = w
   \<and> pendingUpdates (fst (mutations acts (s, w))) = pendingUpdates s
   \<and> (\<forall>x \<in> set (resolutions (fst (mutations acts (s, w)))). notionPageId x = None)"
proof (induction acts arbitrary: s)
  case Nil
  then show ?case by simp
next
  case (Cons a acts)
  obtain today now i inc where a: "a = (today, now, i, inc)" by (cases a)
  obtain s1 w1 where u: "updateProgress s today now i inc (s, w) = (s1, w1)"
    by (cases "updateProgress s today now i inc (s, w)")
  from updateProgress_local_only [OF Cons.prems, of today now i inc w] u
  have w1: "w1 = w" and q: "pendingUpdates s1 = pendingUpdates s"
    and inv: "\<forall>x \<in> set (resolutions s1). notionPageId x = None" by simp_all
  from Cons.IH [OF inv] a u w1 q show ?case by simp
qed

lemma getDemoData_local: "\<forall>x \<in> set getDemoData. notionPageId x = None"
  by (simp add: getDemoData_def)

text \<open>
  Offline mutations of one record with a remote id, then a replay by a render \<open>r\<close> that
  holds the queue as it now is, every call succeeding: the queue is empty afterwards and
  the last update the remote store applied is for that record and carries its local value.
\<close>

lemma find_map_checkin:
  "find (\<lambda>x. rec_id x = i) (map (checkin i c today) xs)
   = map_option (checkin i c today) (find (\<lambda>x. rec_id x = i) xs)"
  by (induction xs) (auto simp: checkin_def)

lemma updateProgress_offline:
  assumes off: "\<not> isOnline s"
    and f: "find (\<lambda>x. rec_id x = i) (resolutions s) = Some res"
    and t: "truthy (notionPageId res)"
  shows "\<exists>s1. updateProgress s today now i inc (s, w) = (s1, w)
      \<and> \<not> isOnline s1
      \<and> resolutions s1 = map (checkin i (max 0 (current res + inc)) today) (resolutions s)
      \<and> pendingUpdates s1 = pendingUpdates s @
          [\<lparr>pageId = the (notionPageId res),
            updates = \<lparr>upd_current = max 0 (current res + inc), upd_lastCheckin = today\<rparr>,
            timestamp = now\<rparr>]"
  using assms by (simp add: updateProgress_def Let_def)

lemma offline_run:
  assumes "\<not> isOnline s"
    and "find (\<lambda>x. rec_id x = i) (resolutions s) = Some res"
    and "truthy (notionPageId res)"
  shows "\<exists>s' res' qs.
      mutations (map (\<lambda>(today, now, inc). (today, now, i, inc)) steps) (s, w) = (s', w)
    \<and> \<not> isOnline s'
    \<and> find (\<lambda>x. rec_id x = i) (resolutions s') = Some res'
    \<and> notionPageId res' = notionPageId res
    \<and> pendingUpdates s' = pendingUpdates s @ qs
    \<and> length qs = length steps
    \<and> (\<forall>u \<in> set qs. pageId u = the (notionPageId res))
    \<and> (steps \<noteq> [] \<longrightarrow> upd_current (updates (last qs)) = current res')"
  using assms
proof (induction steps arbitrary: s res)
  case Nil
  then show ?case by simp
next
  case (Cons step steps)
  obtain today now inc where step: "step = (today, now, inc)" by (cases step)
  let ?c = "max 0 (current res + inc)"
  let ?u = "\<lparr>pageId = the (notionPageId res),
            updates = \<lparr>upd_current = ?c, upd_lastCheckin = today\<rparr>, timestamp = now\<rparr>"
  obtain s1 where s1: "updateProgress s today now i inc (s, w) = (s1, w)"
    and off1: "\<not> isOnline s1"
    and rs1: "resolutions s1 = map (checkin i ?c today) (resolutions s)"
    and q1: "pendingUpdates s1 = pendingUpdates s @ [?u]"
    using updateProgress_offline [OF Cons.prems, of today now inc w] by blast
  let ?res1 = "checkin i ?c today res"
  from rs1 Cons.prems(2) have f1: "find (\<lambda>x. rec_id x = i) (resolutions s1) = Some ?res1"
    by (simp add: find_map_checkin)
  from find_SomeD [OF Cons.prems(2)] have idres: "rec_id res = i" by simp
  then have n1: "notionPageId ?res1 = notionPageId res" and c1: "current ?res1 = ?c"
    by (simp_all add: checkin_def)
  from Cons.prems(3) n1 have t1: "truthy (notionPageId ?res1)" by simp
  from Cons.IH [OF off1 f1 t1] obtain s' res' qs where
    run: "mutations (map (\<lambda>(today, now, inc). (today, now, i, inc)) steps) (s1, w) = (s', w)"
    and off': "\<not> isOnline s'"
    and f': "find (\<lambda>x. rec_id x = i) (resolutions s') = Some res'"
    and n': "notionPageId res' = notionPageId ?res1"
    and q': "pendingUpdates s' = pendingUpdates s1 @ qs"
    and len: "length qs = length steps"
    and pg: "\<forall>u \<in> set qs. pageId u = the (notionPageId ?res1)"
    and lst: "steps \<noteq> [] \<longrightarrow> upd_current (updates (last qs)) = current res'"
    by blast
  have last: "upd_current (updates (last (?u # qs))) = current res'"
  proof (cases steps)
    case Nil
    with len run f1 f' c1 show ?thesis by simp
  next
    case (Cons a list)
    with len lst show ?thesis by auto
  qed
  from step s1 run have "mutations (map (\<lambda>(today, now, inc). (today, now, i, inc)) (step # steps)) (s, w) = (s', w)"
    by simp
  moreover from q' q1 have "pendingUpdates s' = pendingUpdates s @ (?u # qs)" by simp
  moreover from len have "length (?u # qs) = length (step # steps)" by simp
  moreover from pg n1 have "\<forall>u \<in> set (?u # qs). pageId u = the (notionPageId res)" by simp
  moreover from n' n1 have "notionPageId res' = notionPageId res" by simp
  ultimately show ?case using off' f' last by blast
qed

lemma replay_all_ok:
  assumes len: "length us \<le> length (script w)"
    and oks: "\<forall>a \<in> set (take (length us) (script w)). a = Ok"
  shows "replay us [] w =
     ([], w\<lparr>script := drop (length us) (script w),
           patched := patched w @ map (\<lambda>u. (pageId u, updates u)) us\<rparr>)"
proof -
  from len have sn: "map snd (zip us (script w)) = take (length us) (script w)"
    by (simp add: map_snd_zip_take min_absorb1)
  have all: "\<forall>x \<in> set (zip us (script w)). snd x = Ok"
  proof
    fix x assume "x \<in> set (zip us (script w))"
    then have "snd x \<in> set (map snd (zip us (script w)))" by simp
    with sn oks show "snd x = Ok" by simp
  qed
  then have none: "filter (\<lambda>(u, a). a \<noteq> Ok) (zip us (script w)) = []"
    by (auto simp: filter_empty_conv)
  from all have every: "filter (\<lambda>(u, a). a = Ok) (zip us (script w)) = zip us (script w)"
    by (auto simp: filter_id_conv)
  have "map (\<lambda>(u, a). (pageId u, updates u)) (zip us (script w))
        = map (\<lambda>u. (pageId u, updates u)) (map fst (zip us (script w)))"
    by (simp add: case_prod_beta comp_def)
  also from len have "map fst (zip us (script w)) = us" by (simp add: map_fst_zip_take)
  finally show ?thesis by (simp add: replay_script [OF len] none every)
qed

lemma syncPendingUpdates_all_ok:
  assumes ne: "pendingUpdates r \<noteq> []"
    and len: "length (pendingUpdates r) \<le> length (script w)"
    and oks: "\<forall>a \<in> set (take (length (pendingUpdates r)) (script w)). a = Ok"
  shows "pendingUpdates (fst (syncPendingUpdates r listed ls (s, w))) = []
       \<and> patched (snd (syncPendingUpdates r listed ls (s, w)))
           = patched w @ map (\<lambda>u. (pageId u, updates u)) (pendingUpdates r)"
  using ne
  by (simp add: syncPendingUpdates_def replay_all_ok [OF len oks] Let_def fetchResolutions_def)

lemma replay_of_current_queue:
  assumes off: "\<not> isOnline s"
    and f: "find (\<lambda>x. rec_id x = i) (resolutions s) = Some res"
    and t: "truthy (notionPageId res)"
    and steps: "steps \<noteq> []"
    and cur: "pendingUpdates r =
        pendingUpdates (fst (mutations (map (\<lambda>(today, now, inc). (today, now, i, inc)) steps) (s, w)))"
    and len: "length (pendingUpdates r) \<le> length (script w)"
    and oks: "\<forall>a \<in> set (take (length (pendingUpdates r)) (script w)). a = Ok"
  shows "\<exists>s' res'.
      mutations (map (\<lambda>(today, now, inc). (today, now, i, inc)) steps) (s, w) = (s', w)
    \<and> find (\<lambda>x. rec_id x = i) (resolutions s') = Some res'
    \<and> pendingUpdates (fst (syncPendingUpdates r listed ls (s', w))) = []
    \<and> fst (last (patched (snd (syncPendingUpdates r listed ls (s', w))))) = the (notionPageId res)
    \<and> upd_current (snd (last (patched (snd (syncPendingUpdates r listed ls (s', w))))))
        = current res'"
proof -
  from offline_run [OF off f t, of steps w] obtain s' res' qs where
    run: "mutations (map (\<lambda>(today, now, inc). (today, now, i, inc)) steps) (s, w) = (s', w)"
    and f': "find (\<lambda>x. rec_id x = i) (resolutions s') = Some res'"
    and q': "pendingUpdates s' = pendingUpdates s @ qs"
    and lq: "length qs = length steps"
    and pg: "\<forall>u \<in> set qs. pageId u = the (notionPageId res)"
    and lst: "steps \<noteq> [] \<longrightarrow> upd_current (updates (last qs)) = current res'"
    by blast
  from lq steps have qs: "qs \<noteq> []" by auto
  with pg have lp: "pageId (last qs) = the (notionPageId res)" by simp
  from cur run q' have qr: "pendingUpdates r = pendingUpdates s @ qs" by simp
  with qs have ne: "pendingUpdates r \<noteq> []" by simp
  from qr qs have "last (map (\<lambda>u. (pageId u, updates u)) (pendingUpdates r))
      = (pageId (last qs), updates (last qs))"
    by (simp add: last_map)
  with syncPendingUpdates_all_ok [OF ne len oks, of listed ls s'] ne lp lst steps
  have "pendingUpdates (fst (syncPendingUpdates r listed ls (s', w))) = []
    \<and> fst (last (patched (snd (syncPendingUpdates r listed ls (s', w))))) = the (notionPageId res)
    \<and> upd_current (snd (last (patched (snd (syncPendingUpdates r listed ls (s', w))))))
        = current res'"
    by simp
  with run f' show ?thesis by blast
qed

subsection \<open>Replaying the queue\<close>

text \<open>
  C1. For a record with a remote id, every increment or decrement made while offline
  appends one pending update that carries the absolute value just computed; once
  connectivity returns and every replayed call succeeds, the remote store should hold the
  final local value and the queue should be empty.

  The component does not get there. \<open>handleOnline\<close> calls the \<open>syncPendingUpdates\<close> of
  the render that installed the listener, the first one, whose \<open>pendingUpdates\<close> is the
  queue read from storage at mount; the render of \<open>replay_of_current_queue\<close> is never
  that one once an update has been queued since the mount. Two sessions:
  \<^item> The component mounts online with nothing stored and fetches one record, the browser
    goes offline, the record is incremented from 3 to 4 (one update is queued), and the
    browser comes back online with a remote that would accept the call. The replay sees
    the empty queue of the first render and returns at once: no call is made and the
    update stays queued.
  \<^item> The component mounts offline with the record and one update (value 3) in storage,
    the record is incremented to 4 (a second update is queued), and the browser comes
    online with a remote that accepts every call. The replay sends the one update of the
    first render and sets the queue to what failed of it, the empty list: the queue is
    empty, the update carrying 4 was never sent, and the last value the remote store
    applied is 3.
\<close>

theorem reconnect_replays_mount_queue:
  "(let m = mount True empty_storage;
        s0 = startup True (Some [example_goal]) empty_storage;
        s1 = handleOffline s0;
        (s2, w2) = updateProgress s1 ''2026-01-08'' 7 ''a'' 1 (s1, quiet);
        (s3, w3) = handleOnline m (Some [example_goal]) empty_storage (s2, w2)
    in pendingUpdates m = []
     \<and> syncStatus s0 = Synced
     \<and> map current (resolutions s2) = [4]
     \<and> pendingUpdates s2 = [example_update 4 7]
     \<and> isOnline s3
     \<and> map current (resolutions s3) = [4]
     \<and> pendingUpdates s3 = [example_update 4 7]
     \<and> w3 = quiet)
   \<and> (let ls = \<lparr>stored_resolutions = Some [example_goal],
                    stored_pendingUpdates = Some [example_update 3 5], quotaExceeded = False\<rparr>;
            m = mount False ls;
            s0 = startup False None ls;
            (s1, w1) = updateProgress s0 ''2026-01-08'' 7 ''a'' 1
                         (s0, \<lparr>script = [Ok, Ok], patched = []\<rparr>);
            (s2, w2) = handleOnline m None ls (s1, w1)
        in pendingUpdates m = [example_update 3 5]
         \<and> pendingUpdates s1 = [example_update 3 5, example_update 4 7]
         \<and> map current (resolutions s2) = [4]
         \<and> pendingUpdates s2 = []
         \<and> patched w2 = [(''p'', \<lparr>upd_current = 3, upd_lastCheckin = ''2026-01-08''\<rparr>)]
         \<and> script w2 = [Ok])"
  by (simp add: mount_def startup_def fetchResolutions_def handleOffline_def updateProgress_def
      handleOnline_def syncPendingUpdates_def example_goal_def empty_storage_def quiet_def
      example_update_def checkin_def Let_def)

text \<open>
  One drain that meets at least one failing call: the queue afterwards holds exactly the
  updates of the replayed queue whose call failed, in the order they were queued, the
  status is \<open>Error\<close> whatever else succeeded, and the remote store has applied each
  update whose call succeeded once. The script says how each call of the replay ends.
\<close>

lemma syncPendingUpdates_partial_failure:
  assumes "pendingUpdates r \<noteq> []"
    and "length (pendingUpdates r) \<le> length (script w)"
    and "\<exists>a \<in> set (take (length (pendingUpdates r)) (script w)). a \<noteq> Ok"
    and "syncPendingUpdates r listed ls (s, w) = (s', w')"
  shows "pendingUpdates s' = map fst (filter (\<lambda>(u, a). a \<noteq> Ok) (zip (pendingUpdates r) (script w)))
       \<and> subseq (pendingUpdates s') (pendingUpdates r)
       \<and> pendingUpdates s' \<noteq> []
       \<and> syncStatus s' = Error
       \<and> patched w' = patched w @
           map (\<lambda>(u, a). (pageId u, updates u))
             (filter (\<lambda>(u, a). a = Ok) (zip (pendingUpdates r) (script w)))"
proof -
  let ?failed = "map fst (filter (\<lambda>(u, a). a \<noteq> Ok) (zip (pendingUpdates r) (script w)))"
  from failed_nonempty [OF assms(2,3)] have ne: "?failed \<noteq> []" by simp
  from assms(1,4) ne
  have s': "s' = s\<lparr>pendingUpdates := ?failed, isSyncing := False, syncStatus := Error\<rparr>"
    and w': "patched w' = patched w @
           map (\<lambda>(u, a). (pageId u, updates u))
             (filter (\<lambda>(u, a). a = Ok) (zip (pendingUpdates r) (script w)))"
    by (auto simp: syncPendingUpdates_def replay_script [OF assms(2)] Let_def)
  from s' w' ne failed_subseq [OF assms(2)] show ?thesis by simp
qed

lemma syncPendingUpdates_partial_failure_example:
  "pendingUpdates queued \<noteq> []
   \<and> length (pendingUpdates queued) \<le> length [Ok, Rejected, Unreachable]
   \<and> Rejected \<in> set (take (length (pendingUpdates queued)) [Ok, Rejected, Unreachable])
   \<and> pendingUpdates (fst (syncPendingUpdates queued None empty_storage
        (queued, \<lparr>script = [Ok, Rejected, Unreachable], patched = []\<rparr>)))
      = [example_update 5 8, example_update 4 9]
   \<and> syncStatus (fst (syncPendingUpdates queued None empty_storage
        (queued, \<lparr>script = [Ok, Rejected, Unreachable], patched = []\<rparr>))) = Error
   \<and> patched (snd (syncPendingUpdates queued None empty_storage
        (queued, \<lparr>script = [Ok, Rejected, Unreachable], patched = []\<rparr>)))
      = [(''p'', \<lparr>upd_current = 4, upd_lastCheckin = ''2026-01-08''\<rparr>)]"
proof -
  let ?w = "\<lparr>script = [Ok, Rejected, Unreachable], patched = []\<rparr>"
  have h1: "pendingUpdates queued \<noteq> []" by (simp add: queued_def)
  have h2: "length (pendingUpdates queued) \<le> length (script ?w)" by (simp add: queued_def)
  have h3: "\<exists>a \<in> set (take (length (pendingUpdates queued)) (script ?w)). a \<noteq> Ok"
    by (simp add: queued_def)
  have h4: "syncPendingUpdates queued None empty_storage (queued, ?w)
      = (fst (syncPendingUpdates queued None empty_storage (queued, ?w)),
         snd (syncPendingUpdates queued None empty_storage (queued, ?w)))" by simp
  from syncPendingUpdates_partial_failure [OF h1 h2 h3 h4]
  show ?thesis by (simp add: queued_def example_update_def)
qed

text \<open>
  C2. After a drain in which a call failed, the queue should hold exactly the failed
  updates, with status \<open>Error\<close>, and the updates that were applied should be gone for
  good, never to be applied again.

  One drain leaves the queue and the status as said (\<open>syncPendingUpdates_partial_failure\<close>),
  but the applied updates come back: \<open>handleOnline\<close> replays the queue of the first
  render at every \<open>online\<close> event, whatever the queue has become. In the session below
  the component mounts offline with two updates in storage (values 4 and 5). At the first
  \<open>online\<close> the update carrying 4 is applied and the one carrying 5 is rejected: the
  queue is the rejected update alone and the status is \<open>Error\<close>. The browser goes
  offline and comes back; the remote now accepts every call. The replay sends both
  updates of the first render again: the update carrying 4, applied and removed before,
  is applied a second time.
\<close>

theorem reconnect_reapplies_update:
  "(let ls = \<lparr>stored_resolutions = Some [example_goal],
               stored_pendingUpdates = Some [example_update 4 7, example_update 5 8],
               quotaExceeded = False\<rparr>;
        m = mount False ls;
        s0 = startup False None ls;
        (s1, w1) = handleOnline m None ls (s0, \<lparr>script = [Ok, Rejected, Ok, Ok], patched = []\<rparr>);
        s2 = handleOffline s1;
        (s3, w3) = handleOnline m None ls (s2, w1)
    in pendingUpdates m = [example_update 4 7, example_update 5 8]
     \<and> pendingUpdates s1 = [example_update 5 8]
     \<and> syncStatus s1 = Error
     \<and> patched w1 = [(''p'', updates (example_update 4 7))]
     \<and> pendingUpdates s3 = []
     \<and> patched w3 = [(''p'', updates (example_update 4 7)),
                      (''p'', updates (example_update 4 7)),
                      (''p'', updates (example_update 5 8))])"
  by (simp add: mount_def startup_def fetchResolutions_def handleOffline_def
      handleOnline_def syncPendingUpdates_def example_goal_def example_update_def Let_def)

subsection \<open>Progress mutations\<close>

lemma find_retarget:
  "find (\<lambda>x. rec_id x = i) (map (\<lambda>y. y\<lparr>target := t y\<rparr>) xs)
   = map_option (\<lambda>y. y\<lparr>target := t y\<rparr>) (find (\<lambda>x. rec_id x = i) xs)"
  by (induction xs) auto

lemma updateProgress_ignores_target:
  "map current (resolutions (fst (updateProgress
       (r\<lparr>resolutions := map (\<lambda>y. y\<lparr>target := t y\<rparr>) (resolutions r)\<rparr>) today now i inc
       (s\<lparr>resolutions := map (\<lambda>y. y\<lparr>target := t y\<rparr>) (resolutions s)\<rparr>, w))))
   = map current (resolutions (fst (updateProgress r today now i inc (s, w))))"
proof (cases "find (\<lambda>x. rec_id x = i) (resolutions r)")
  case None
  then show ?thesis
    by (simp add: updateProgress_def find_retarget comp_def)
next
  case (Some res)
  let ?r = "r\<lparr>resolutions := map (\<lambda>y. y\<lparr>target := t y\<rparr>) (resolutions r)\<rparr>"
  let ?s = "s\<lparr>resolutions := map (\<lambda>y. y\<lparr>target := t y\<rparr>) (resolutions s)\<rparr>"
  from Some have f: "find (\<lambda>x. rec_id x = i) (resolutions ?r) = Some (res\<lparr>target := t res\<rparr>)"
    by (simp add: find_retarget)
  show ?thesis
    unfolding updateProgress_resolutions [OF f] updateProgress_resolutions [OF Some]
    by (simp add: checkin_def)
qed

text \<open>
  C4. After an increment or decrement the mutated record's \<open>current\<close> is never negative,
  and a decrement at 0 leaves it at 0. Nothing cuts it off from above: the stored values
  are the same whatever the targets of the records are, and within the safe integers the
  stored value is exactly the old value plus the step whenever that is not negative,
  beyond \<open>target\<close> or not. Only the percentage that \<open>getProgress\<close> shows is capped
  at 100.
\<close>

theorem updateProgress_current_bounds:
  assumes "find (\<lambda>x. rec_id x = i) (resolutions r) = Some res"
    and "x \<in> set (resolutions (fst (updateProgress r today now i inc (s, w))))"
    and "rec_id x = i"
  shows "0 \<le> current x
       \<and> (current res = 0 \<and> inc \<le> 0 \<longrightarrow> current x = 0)
       \<and> (isSafeInteger (current res) \<and> isSafeInteger inc \<and> isSafeInteger (current res + inc) \<longrightarrow>
            current x = max 0 (current res + inc)
            \<and> (0 \<le> current res + inc \<longrightarrow> current x = current res + inc))
       \<and> map current (resolutions (fst (updateProgress
              (r\<lparr>resolutions := map (\<lambda>y. y\<lparr>target := t y\<rparr>) (resolutions r)\<rparr>) today now i inc
              (s\<lparr>resolutions := map (\<lambda>y. y\<lparr>target := t y\<rparr>) (resolutions s)\<rparr>, w))))
           = map current (resolutions (fst (updateProgress r today now i inc (s, w))))
       \<and> (case getProgress x of Percent p \<Rightarrow> p \<le> 100 | _ \<Rightarrow> True)"
proof -
  from assms(2) obtain y where y: "y \<in> set (resolutions s)"
    and x: "x = checkin i (max 0 (current res + inc)) today y"
    by (auto simp: updateProgress_resolutions [OF assms(1)])
  from assms(3) x have "rec_id y = i" by (simp add: checkin_def split: if_splits)
  with x have c: "current x = max 0 (current res + inc)" by (simp add: checkin_def)
  have p: "(case getProgress x of Percent p \<Rightarrow> p \<le> 100 | _ \<Rightarrow> True)"
    by (simp add: getProgress_def)
  from c have "0 \<le> current x" by simp
  moreover from c have "current res = 0 \<and> inc \<le> 0 \<longrightarrow> current x = 0" by auto
  moreover from c have "0 \<le> current res + inc \<longrightarrow> current x = current res + inc" by auto
  ultimately show ?thesis using c p updateProgress_ignores_target [of t r today now i inc s w]
    by blast
qed

theorem updateProgress_current_bounds_witness:
  "find (\<lambda>x. rec_id x = ''b'') (resolutions (example_state False)) = Some idle_goal
   \<and> resolutions (fst (updateProgress (example_state False) ''2026-01-08'' 7 ''b'' (- 1)
        (example_state False, quiet)))
      = [example_goal, idle_goal\<lparr>current := 0, lastCheckin := ''2026-01-08''\<rparr>]
   \<and> current idle_goal = 0
   \<and> find (\<lambda>x. rec_id x = ''a'') (resolutions (example_state False)) = Some example_goal
   \<and> isSafeInteger (current example_goal) \<and> isSafeInteger 1
   \<and> isSafeInteger (current example_goal + 1)
   \<and> resolutions (fst (updateProgress (example_state False) ''2026-01-08'' 7 ''a'' 1
        (example_state False, quiet)))
      = [example_goal\<lparr>current := 4, lastCheckin := ''2026-01-08''\<rparr>, idle_goal]
   \<and> target example_goal = 3
   \<and> getProgress (example_goal\<lparr>current := 4, lastCheckin := ''2026-01-08''\<rparr>) = Percent 100"
proof -
  let ?s = "example_state False"
  let ?b = "idle_goal\<lparr>current := 0, lastCheckin := ''2026-01-08''\<rparr>"
  let ?a = "example_goal\<lparr>current := 4, lastCheckin := ''2026-01-08''\<rparr>"
  let ?rb = "resolutions (fst (updateProgress ?s ''2026-01-08'' 7 ''b'' (- 1) (?s, quiet)))"
  let ?ra = "resolutions (fst (updateProgress ?s ''2026-01-08'' 7 ''a'' 1 (?s, quiet)))"
  have fb: "find (\<lambda>x. rec_id x = ''b'') (resolutions ?s) = Some idle_goal"
    by (simp add: example_state_def example_goal_def idle_goal_def)
  have fa: "find (\<lambda>x. rec_id x = ''a'') (resolutions ?s) = Some example_goal"
    by (simp add: example_state_def example_goal_def)
  have safe: "isSafeInteger (current example_goal)" "isSafeInteger 1"
    "isSafeInteger (current example_goal + 1)"
    by (simp_all add: isSafeInteger_def MAX_SAFE_INTEGER_def example_goal_def)
  have zero: "current idle_goal = 0" by (simp add: idle_goal_def)
  have shape_b: "?rb = [example_goal, checkin ''b'' (max 0 (current idle_goal + (- 1))) ''2026-01-08'' idle_goal]"
    by (simp add: updateProgress_resolutions [OF fb])
      (simp add: example_state_def example_goal_def idle_goal_def checkin_def)
  have shape_a: "?ra = [checkin ''a'' (max 0 (current example_goal + 1)) ''2026-01-08'' example_goal, idle_goal]"
    by (simp add: updateProgress_resolutions [OF fa])
      (simp add: example_state_def example_goal_def idle_goal_def checkin_def)
  let ?xb = "checkin ''b'' (max 0 (current idle_goal + (- 1))) ''2026-01-08'' idle_goal"
  let ?xa = "checkin ''a'' (max 0 (current example_goal + 1)) ''2026-01-08'' example_goal"
  have mb: "?xb \<in> set ?rb" by (simp add: shape_b)
  have ma: "?xa \<in> set ?ra" by (simp add: shape_a)
  have ib: "rec_id ?xb = ''b''" by (simp add: checkin_def idle_goal_def)
  have ia: "rec_id ?xa = ''a''" by (simp add: checkin_def example_goal_def)
  from updateProgress_current_bounds [OF fb mb ib] zero
  have cb: "current ?xb = 0" by simp
  from updateProgress_current_bounds [OF fa ma ia] safe
  have "current ?xa = current example_goal + 1" by (simp add: example_goal_def)
  then have ca: "current ?xa = 4" by (simp add: example_goal_def)
  from cb have xb: "?xb = ?b" by (simp add: checkin_def idle_goal_def)
  from ca have xa: "?xa = ?a" by (simp add: checkin_def example_goal_def)
  from updateProgress_current_bounds [OF fa ma ia]
  have "(case getProgress ?xa of Percent p \<Rightarrow> p \<le> 100 | _ \<Rightarrow> True)" by blast
  have gp: "getProgress ?a = Percent 100" by (simp add: getProgress_def example_goal_def)
  from fb fa safe zero shape_b shape_a xb xa gp show ?thesis
    by (simp add: example_goal_def)
qed

text \<open>
  C9, as the claim has it, at a concrete input: online, the remote call of an increment
  is rejected; the status becomes \<open>Error\<close> and nothing is queued.
\<close>

theorem online_failure_counterexample:
  "isOnline (example_state True)
   \<and> find (\<lambda>x. rec_id x = ''a'') (resolutions (example_state True)) = Some example_goal
   \<and> notionPageId example_goal = Some ''p''
   \<and> fst (updateResolution ''p'' \<lparr>upd_current = 4, upd_lastCheckin = ''2026-01-08''\<rparr>
        \<lparr>script = [Rejected], patched = []\<rparr>) = False
   \<and> pendingUpdates (fst (updateProgress (example_state True) ''2026-01-08'' 7 ''a'' 1
        (example_state True, \<lparr>script = [Rejected], patched = []\<rparr>))) = []
   \<and> syncStatus (fst (updateProgress (example_state True) ''2026-01-08'' 7 ''a'' 1
        (example_state True, \<lparr>script = [Rejected], patched = []\<rparr>))) = Error
   \<and> map current (resolutions (fst (updateProgress (example_state True) ''2026-01-08'' 7 ''a'' 1
        (example_state True, \<lparr>script = [Rejected], patched = []\<rparr>)))) = [4, 0]"
  by (simp add: updateProgress_def example_state_def example_goal_def idle_goal_def checkin_def Let_def)

text \<open>
  C9, amended. A progress mutation on a record with a remote id queues a pending update
  with the mutated fields exactly when the connectivity flag is off, and then makes no
  remote call. With the flag on, a remote call that fails (unreachable network or
  non-success status) leaves the queue as it was: the local mutation is kept and the
  failure shows in the status, which becomes \<open>Error\<close>.
\<close>

theorem updateProgress_queues_only_offline:
  assumes "find (\<lambda>x. rec_id x = i) (resolutions r) = Some res"
    and "truthy (notionPageId res)"
    and "updateProgress r today now i inc (s, w) = (s', w')"
  shows "(isOnline r \<and> (script w = [] \<or> hd (script w) \<noteq> Ok) \<longrightarrow>
            pendingUpdates s' = pendingUpdates s \<and> syncStatus s' = Error
            \<and> patched w' = patched w
            \<and> resolutions s' = map (checkin i (max 0 (current res + inc)) today) (resolutions s))
       \<and> (\<not> isOnline r \<longrightarrow>
            pendingUpdates s' = pendingUpdates s @
              [\<lparr>pageId = the (notionPageId res),
                updates = \<lparr>upd_current = max 0 (current res + inc), upd_lastCheckin = today\<rparr>,
                timestamp = now\<rparr>]
            \<and> syncStatus s' = Offline \<and> w' = w
            \<and> resolutions s' = map (checkin i (max 0 (current res + inc)) today) (resolutions s))"
proof (cases "isOnline r")
  case True
  show ?thesis
  proof (cases "script w = [] \<or> hd (script w) \<noteq> Ok")
    case False
    with True show ?thesis by simp
  next
    case fails: True
    obtain b w1 where u: "updateResolution (the (notionPageId res))
        \<lparr>upd_current = max 0 (current res + inc), upd_lastCheckin = today\<rparr> w = (b, w1)"
      by (cases "updateResolution (the (notionPageId res))
        \<lparr>upd_current = max 0 (current res + inc), upd_lastCheckin = today\<rparr> w")
    from updateResolution_fails [OF fails, of "the (notionPageId res)"
        "\<lparr>upd_current = max 0 (current res + inc), upd_lastCheckin = today\<rparr>"] u
    have b: "\<not> b" and w1: "patched w1 = patched w" by simp_all
    from assms True u b w1 show ?thesis
      by (auto simp: updateProgress_def Let_def simp del: updateResolution.simps)
  qed
next
  case False
  with assms show ?thesis
    by (auto simp: updateProgress_def Let_def simp del: updateResolution.simps)
qed

theorem updateProgress_queues_only_offline_witness:
  "find (\<lambda>x. rec_id x = ''a'') (resolutions (example_state True)) = Some example_goal
   \<and> find (\<lambda>x. rec_id x = ''a'') (resolutions (example_state False)) = Some example_goal
   \<and> truthy (notionPageId example_goal)
   \<and> isOnline (example_state True)
   \<and> hd (script \<lparr>script = [Unreachable], patched = []\<rparr>) \<noteq> Ok
   \<and> pendingUpdates (fst (updateProgress (example_state True) ''2026-01-08'' 7 ''a'' 1
        (example_state True, \<lparr>script = [Unreachable], patched = []\<rparr>))) = []
   \<and> syncStatus (fst (updateProgress (example_state True) ''2026-01-08'' 7 ''a'' 1
        (example_state True, \<lparr>script = [Unreachable], patched = []\<rparr>))) = Error
   \<and> \<not> isOnline (example_state False)
   \<and> pendingUpdates (fst (updateProgress (example_state False) ''2026-01-08'' 7 ''a'' 1
        (example_state False, quiet))) = [example_update 4 7]
   \<and> syncStatus (fst (updateProgress (example_state False) ''2026-01-08'' 7 ''a'' 1
        (example_state False, quiet))) = Offline
   \<and> snd (updateProgress (example_state False) ''2026-01-08'' 7 ''a'' 1
        (example_state False, quiet)) = quiet"
proof -
  let ?w = "\<lparr>script = [Unreachable], patched = []\<rparr>"
  let ?on = "updateProgress (example_state True) ''2026-01-08'' 7 ''a'' 1 (example_state True, ?w)"
  let ?off = "updateProgress (example_state False) ''2026-01-08'' 7 ''a'' 1 (example_state False, quiet)"
  have f1: "find (\<lambda>x. rec_id x = ''a'') (resolutions (example_state True)) = Some example_goal"
    by (simp add: example_state_def example_goal_def)
  have f2: "find (\<lambda>x. rec_id x = ''a'') (resolutions (example_state False)) = Some example_goal"
    by (simp add: example_state_def example_goal_def)
  have t: "truthy (notionPageId example_goal)" by (simp add: example_goal_def)
  have on: "isOnline (example_state True)" and off: "\<not> isOnline (example_state False)"
    by (simp_all add: example_state_def)
  have fails: "hd (script ?w) \<noteq> Ok" by simp
  have e1: "?on = (fst ?on, snd ?on)" and e2: "?off = (fst ?off, snd ?off)" by simp_all
  from updateProgress_queues_only_offline [OF f1 t e1] on fails
  have a: "pendingUpdates (fst ?on) = pendingUpdates (example_state True)"
    and b: "syncStatus (fst ?on) = Error" by blast+
  from updateProgress_queues_only_offline [OF f2 t e2] off
  have c: "pendingUpdates (fst ?off) = pendingUpdates (example_state False) @
              [\<lparr>pageId = the (notionPageId example_goal),
                updates = \<lparr>upd_current = max 0 (current example_goal + 1),
                           upd_lastCheckin = ''2026-01-08''\<rparr>,
                timestamp = 7\<rparr>]"
    and d: "syncStatus (fst ?off) = Offline" and e: "snd ?off = quiet" by blast+
  from a have a': "pendingUpdates (fst ?on) = []" by (simp add: example_state_def)
  from c have c': "pendingUpdates (fst ?off) = [example_update 4 7]"
    by (simp add: example_state_def example_goal_def example_update_def)
  from f1 f2 t on off fails a' b c' d e show ?thesis by simp
qed

subsection \<open>Demo data and storage\<close>

text \<open>
  C5. A fetch made while online whose List call fails or returns the empty array, with
  no cached records in storage, ends in status \<open>Demo\<close> showing exactly the five
  placeholder records, none of which has a remote id; whatever progress mutations follow,
  online or offline, no remote call is made and nothing is queued.
\<close>

theorem fetchResolutions_demo:
  assumes "isOnline r"
    and "listed = None \<or> listed = Some []"
    and "stored_resolutions ls = None \<or> stored_resolutions ls = Some []"
  shows "syncStatus (fetchResolutions r listed ls s) = Demo
       \<and> resolutions (fetchResolutions r listed ls s) = getDemoData
       \<and> length (resolutions (fetchResolutions r listed ls s)) = 5
       \<and> (\<forall>x \<in> set (resolutions (fetchResolutions r listed ls s)). notionPageId x = None)
       \<and> (\<forall>acts w online.
            snd (mutations acts ((fetchResolutions r listed ls s)\<lparr>isOnline := online\<rparr>, w)) = w
            \<and> pendingUpdates (fst (mutations acts ((fetchResolutions r listed ls s)\<lparr>isOnline := online\<rparr>, w)))
                = pendingUpdates s)"
proof -
  let ?s = "fetchResolutions r listed ls s"
  from assms have st: "syncStatus ?s = Demo" and rs: "resolutions ?s = getDemoData"
    and q: "pendingUpdates ?s = pendingUpdates s"
    by (auto simp: fetchResolutions_def Let_def)
  have len: "length getDemoData = 5" by (simp add: getDemoData_def)
  have run: "snd (mutations acts (?s\<lparr>isOnline := online\<rparr>, w)) = w
       \<and> pendingUpdates (fst (mutations acts (?s\<lparr>isOnline := online\<rparr>, w))) = pendingUpdates s"
    for acts w online
    using mutations_local_only [of "?s\<lparr>isOnline := online\<rparr>" acts w] rs q getDemoData_local
    by simp
  from st rs len getDemoData_local run show ?thesis by simp
qed

theorem fetchResolutions_demo_witness:
  "isOnline (mount True empty_storage)
   \<and> stored_resolutions empty_storage = None
   \<and> syncStatus (startup True (Some []) empty_storage) = Demo
   \<and> length (resolutions (startup True (Some []) empty_storage)) = 5
   \<and> map notionPageId (resolutions (startup True (Some []) empty_storage))
       = [None, None, None, None, None]
   \<and> snd (mutations [(''2026-01-08'', 7, ''demo-1'', 1), (''2026-01-08'', 8, ''demo-4'', - 1)]
         ((startup True (Some []) empty_storage)\<lparr>isOnline := True\<rparr>, quiet)) = quiet"
proof -
  have h1: "isOnline (mount True empty_storage)" by (simp add: mount_def)
  have h2: "Some [] = None \<or> Some [] = Some ([] :: resolution list)" by simp
  have h3: "stored_resolutions empty_storage = None \<or> stored_resolutions empty_storage = Some []"
    by (simp add: empty_storage_def)
  let ?s = "startup True (Some []) empty_storage"
  note demo = fetchResolutions_demo [OF h1 h2 h3, of "mount True empty_storage",
      folded startup_def]
  from demo have st: "syncStatus ?s = Demo" by blast
  from demo have rs: "resolutions ?s = getDemoData" by blast
  from demo have len: "length (resolutions ?s) = 5" by blast
  from demo have "snd (mutations [(''2026-01-08'', 7, ''demo-1'', 1), (''2026-01-08'', 8, ''demo-4'', - 1)]
         (?s\<lparr>isOnline := True\<rparr>, quiet)) = quiet" by blast
  moreover from rs have "map notionPageId (resolutions ?s) = [None, None, None, None, None]"
    by (simp add: getDemoData_def)
  ultimately show ?thesis using h1 st len by (simp add: empty_storage_def)
qed

text \<open>
  C10, as the claim has it, at a concrete input: the queue in memory has become empty, the
  browser refuses the write, \<open>storage.set\<close> swallows the exception, and storage still
  holds the old queue.
\<close>

theorem refused_write_counterexample:
  "quotaExceeded (used_storage\<lparr>quotaExceeded := True\<rparr>)
   \<and> pendingUpdates cleared = []
   \<and> stored_pendingUpdates (used_storage\<lparr>quotaExceeded := True\<rparr>) = Some [example_update 4 7]
   \<and> stored_pendingUpdates (savePendingUpdatesEffect cleared (used_storage\<lparr>quotaExceeded := True\<rparr>))
       = Some [example_update 4 7]
   \<and> stored_pendingUpdates (savePendingUpdatesEffect cleared (used_storage\<lparr>quotaExceeded := True\<rparr>))
       \<noteq> Some (pendingUpdates cleared)"
  by (simp add: savePendingUpdatesEffect_def set_pendingUpdates_def used_storage_def cleared_def
      example_state_def)

text \<open>
  C10, amended. The effect that mirrors the collection writes only a non-empty list: when
  the list in memory becomes empty the stored collection stays as it was. The effect that
  mirrors the queue has no such guard: whenever the browser accepts the write it stores
  the queue as it is, the empty queue included, and leaves the stored collection alone.
  A write the browser refuses changes nothing in storage, for either effect.
\<close>

theorem storage_mirroring:
  "(resolutions s = [] \<longrightarrow> saveResolutionsEffect s ls = ls)
   \<and> (stored_resolutions (saveResolutionsEffect s ls) \<noteq> stored_resolutions ls \<longrightarrow> resolutions s \<noteq> [])
   \<and> (resolutions s \<noteq> [] \<and> \<not> quotaExceeded ls \<longrightarrow>
        stored_resolutions (saveResolutionsEffect s ls) = Some (resolutions s))
   \<and> (\<not> quotaExceeded ls \<longrightarrow>
        stored_pendingUpdates (savePendingUpdatesEffect s ls) = Some (pendingUpdates s))
   \<and> (quotaExceeded ls \<longrightarrow> savePendingUpdatesEffect s ls = ls \<and> saveResolutionsEffect s ls = ls)
   \<and> stored_resolutions (savePendingUpdatesEffect s ls) = stored_resolutions ls"
  by (simp add: saveResolutionsEffect_def savePendingUpdatesEffect_def set_resolutions_def
      set_pendingUpdates_def)

theorem storage_mirroring_witness:
  "resolutions cleared = [] \<and> pendingUpdates cleared = []
   \<and> \<not> quotaExceeded used_storage
   \<and> stored_resolutions used_storage = Some [idle_goal]
   \<and> stored_pendingUpdates used_storage = Some [example_update 4 7]
   \<and> saveResolutionsEffect cleared used_storage = used_storage
   \<and> stored_pendingUpdates (savePendingUpdatesEffect cleared used_storage) = Some []
   \<and> resolutions (example_state True) \<noteq> []
   \<and> stored_resolutions (saveResolutionsEffect (example_state True) used_storage)
       = Some [example_goal, idle_goal]
   \<and> stored_resolutions (saveResolutionsEffect (example_state True) used_storage)
       \<noteq> stored_resolutions used_storage
   \<and> quotaExceeded (used_storage\<lparr>quotaExceeded := True\<rparr>)
   \<and> savePendingUpdatesEffect cleared (used_storage\<lparr>quotaExceeded := True\<rparr>)
       = used_storage\<lparr>quotaExceeded := True\<rparr>"
proof -
  have c: "resolutions cleared = []" "pendingUpdates cleared = []"
    by (simp_all add: cleared_def example_state_def)
  have u: "\<not> quotaExceeded used_storage" "stored_resolutions used_storage = Some [idle_goal]"
    "stored_pendingUpdates used_storage = Some [example_update 4 7]"
    by (simp_all add: used_storage_def)
  have e: "resolutions (example_state True) = [example_goal, idle_goal]"
    by (simp add: example_state_def)
  have f: "quotaExceeded (used_storage\<lparr>quotaExceeded := True\<rparr>)" by simp
  from storage_mirroring [of cleared used_storage] c u
  have a: "saveResolutionsEffect cleared used_storage = used_storage"
    and b: "stored_pendingUpdates (savePendingUpdatesEffect cleared used_storage) = Some []"
    by simp_all
  from storage_mirroring [of "example_state True" used_storage] e u
  have d: "stored_resolutions (saveResolutionsEffect (example_state True) used_storage)
       = Some [example_goal, idle_goal]" by simp
  from storage_mirroring [of cleared "used_storage\<lparr>quotaExceeded := True\<rparr>"] f
  have g: "savePendingUpdatesEffect cleared (used_storage\<lparr>quotaExceeded := True\<rparr>)
       = used_storage\<lparr>quotaExceeded := True\<rparr>" by blast
  have n: "[example_goal, idle_goal] \<noteq> [idle_goal]" by simp
  from a b c d e u n f g show ?thesis by simp
qed

section \<open>Properties of the service worker\<close>

lemma fold_caches_delete:
  "fold caches_delete names cs = filter (\<lambda>entry. fst entry \<notin> set names) cs"
proof (induction names arbitrary: cs)
  case Nil
  show ?case by simp
next
  case (Cons n names)
  show ?case
  proof -
    have "fold caches_delete (n # names) cs
          = filter (\<lambda>entry. fst entry \<notin> set names) (caches_delete n cs)"
      by (simp add: Cons.IH)
    also have "\<dots> = filter (\<lambda>entry. fst entry \<notin> set (n # names)) cs"
      unfolding caches_delete_def by (auto intro: filter_cong)
    finally show ?thesis .
  qed
qed

lemma activate_filter:
  "activate cs = filter (\<lambda>entry. fst entry = STATIC_CACHE \<or> fst entry = DYNAMIC_CACHE) cs"
  unfolding activate_def fold_caches_delete caches_keys_def
  by (rule filter_cong) auto

lemma caches_match_source:
  "caches_match cs u = Some resp \<Longrightarrow> \<exists>name c. (name, c) \<in> set cs \<and> map_of c u = Some resp"
proof (induction cs)
  case Nil
  then show ?case by simp
next
  case (Cons entry cs)
  obtain name c where entry: "entry = (name, c)" by (cases entry)
  show ?case
  proof (cases "map_of c u")
    case None
    with Cons entry show ?thesis by auto
  next
    case (Some r)
    with Cons.prems entry show ?thesis by auto
  qed
qed

lemma offline_not_seeded: "''/offline.html'' \<notin> set STATIC_ASSETS"
  by (simp add: STATIC_ASSETS_def)

text \<open>
  C3. A pending update should leave the durable queue only when its remote call
  succeeded. The background sync of the worker deletes an update after any response:
  \<open>fetch\<close> resolves for a response with a non-success status, nothing looks at the
  status, and the update is gone although the remote store rejected it.
\<close>

theorem syncResolutions_deletes_rejected:
  "syncResolutions [Rejected]
     (Some [(1, \<lparr>pageId = ''p'', updates = \<lparr>upd_current = 4, upd_lastCheckin = ''2026-01-08''\<rparr>, timestamp = 7\<rparr>)])
   = (Inr (), Some [])"
  by (simp add: syncResolutions_def)

text \<open>
  C6. A GET request whose path starts with an API endpoint is answered by the
  network-first strategy, whatever its extension and its accept header; a request with
  any other method gets no strategy at all: the listener returns before
  \<open>respondWith\<close>, so nothing is served from or written to the caches.
\<close>

theorem route_api_and_non_get:
  "(req_method req = ''GET'' \<and> list_ex (\<lambda>endpoint. prefix endpoint (pathname req)) API_ENDPOINTS
      \<longrightarrow> route req = Some NetworkFirst
        \<and> fetch_listener net req cs = Some (networkFirst net req cs))
   \<and> (req_method req \<noteq> ''GET''
      \<longrightarrow> route req = None \<and> fetch_listener net req cs = None)"
  by (simp add: route_def fetch_listener_def)

theorem route_api_and_non_get_witness:
  "req_method avatar = ''GET''
   \<and> prefix ''/api/user'' (pathname avatar)
   \<and> static_extension (pathname avatar)
   \<and> route avatar = Some NetworkFirst
   \<and> fetch_listener (\<lambda>u. None) avatar [] = Some (Some offline_json, [])
   \<and> req_method (avatar\<lparr>req_method := ''PATCH''\<rparr>) \<noteq> ''GET''
   \<and> route (avatar\<lparr>req_method := ''PATCH''\<rparr>) = None
   \<and> fetch_listener (\<lambda>u. Some page) (avatar\<lparr>req_method := ''PATCH''\<rparr>) [] = None"
proof -
  have g: "req_method avatar = ''GET''" by (simp add: avatar_def)
  have p: "prefix ''/api/user'' (pathname avatar)" by (simp add: avatar_def)
  then have ex: "list_ex (\<lambda>endpoint. prefix endpoint (pathname avatar)) API_ENDPOINTS"
    by (simp add: API_ENDPOINTS_def)
  have st: "static_extension (pathname avatar)"
    by (simp add: avatar_def static_extension_def suffix_to_prefix)
  have ng: "req_method (avatar\<lparr>req_method := ''PATCH''\<rparr>) \<noteq> ''GET''" by simp
  from route_api_and_non_get [of avatar "\<lambda>u. None" "[]"] g ex
  have a: "route avatar = Some NetworkFirst"
    and b: "fetch_listener (\<lambda>u. None) avatar [] = Some (networkFirst (\<lambda>u. None) avatar [])"
    by blast+
  have nf: "networkFirst (\<lambda>u. None) avatar [] = (Some offline_json, [])"
    by (simp add: networkFirst_def avatar_def wantsHtml_def)
  from route_api_and_non_get [of "avatar\<lparr>req_method := ''PATCH''\<rparr>" "\<lambda>u. Some page" "[]"] ng
  have c: "route (avatar\<lparr>req_method := ''PATCH''\<rparr>) = None"
    and d: "fetch_listener (\<lambda>u. Some page) (avatar\<lparr>req_method := ''PATCH''\<rparr>) [] = None"
    by blast+
  from g p st a b nf ng c d show ?thesis by simp
qed

text \<open>
  C7. Under network-first, when the network fails and the request has no cached entry,
  a request that accepts HTML should get the offline document (the other requests get the
  JSON body with status 503). The worker answers with whatever the caches hold under
  \<open>/offline.html\<close>, and the install manifest does not list that document: right after
  an install into empty cache storage the answer to a failed navigation is
  \<open>undefined\<close>, no document at all.
\<close>

theorem networkFirst_offline_document_missing:
  "(case install (\<lambda>u. Some page) [] of
      Inl e \<Rightarrow> False
    | Inr cs \<Rightarrow>
        networkFirst (\<lambda>u. None)
          \<lparr>req_method = ''GET'', url = ''/dashboard'', pathname = ''/dashboard'',
            accept = Some ''text/html''\<rparr> cs = (None, cs))"
  by (simp add: install_def STATIC_ASSETS_def STATIC_CACHE_def page_def ok_def caches_open_def
      caches_keys_def cache_put_def put_def networkFirst_def wantsHtml_def)

text \<open>
  C8. After activation no cache is left whose name is neither the current static nor the
  current dynamic name, every entry that \<open>caches.match\<close> still finds comes from one of
  the two current caches, and those two are as they were.
\<close>

theorem activate_purges_superseded:
  "(\<forall>name. name \<noteq> STATIC_CACHE \<and> name \<noteq> DYNAMIC_CACHE \<longrightarrow> name \<notin> set (caches_keys (activate cs)))
   \<and> (\<forall>u resp. caches_match (activate cs) u = Some resp \<longrightarrow>
         (\<exists>name c. (name, c) \<in> set cs \<and> (name = STATIC_CACHE \<or> name = DYNAMIC_CACHE)
            \<and> map_of c u = Some resp))
   \<and> filter (\<lambda>entry. fst entry = STATIC_CACHE \<or> fst entry = DYNAMIC_CACHE) (activate cs)
       = filter (\<lambda>entry. fst entry = STATIC_CACHE \<or> fst entry = DYNAMIC_CACHE) cs"
proof (intro conjI allI impI)
  fix name
  assume "name \<noteq> STATIC_CACHE \<and> name \<noteq> DYNAMIC_CACHE"
  then show "name \<notin> set (caches_keys (activate cs))"
    by (auto simp: activate_filter caches_keys_def)
next
  fix u resp
  assume "caches_match (activate cs) u = Some resp"
  from caches_match_source [OF this]
  show "\<exists>name c. (name, c) \<in> set cs \<and> (name = STATIC_CACHE \<or> name = DYNAMIC_CACHE)
            \<and> map_of c u = Some resp"
    by (auto simp: activate_filter)
next
  show "filter (\<lambda>entry. fst entry = STATIC_CACHE \<or> fst entry = DYNAMIC_CACHE) (activate cs)
       = filter (\<lambda>entry. fst entry = STATIC_CACHE \<or> fst entry = DYNAMIC_CACHE) cs"
    by (simp add: activate_filter)
qed

theorem activate_purges_superseded_witness:
  "''static-v0'' \<noteq> STATIC_CACHE \<and> ''static-v0'' \<noteq> DYNAMIC_CACHE
   \<and> caches_match [(''static-v0'', [(''/app.js'', old_page)]), (''static-v1'', [])] ''/app.js'' = Some old_page
   \<and> ''static-v0'' \<notin> set (caches_keys (activate [(''static-v0'', [(''/app.js'', old_page)]), (''static-v1'', [])]))
   \<and> caches_match (activate [(''static-v0'', [(''/app.js'', old_page)]), (''static-v1'', [])]) ''/app.js'' = None"
  using activate_purges_superseded [of "[(''static-v0'', [(''/app.js'', old_page)]), (''static-v1'', [])]"]
  by (simp add: STATIC_CACHE_def DYNAMIC_CACHE_def activate_def caches_keys_def caches_delete_def)

end
